theory Spec2Isabelle
  imports Main "HOL-Library.Log_Nat"
begin

section \<open>JavaScript numbers\<close>

text \<open>
  Every number of \<^verbatim>\<open>script.js\<close> is an IEEE 754 binary64 value. A finite value is
  carried as the rational it denotes; the two zeros are identified, since the script
  never divides and never inspects the sign of a zero. Every arithmetic result is
  rounded to the nearest binary64 value, ties to even, and overflows to an infinity.
\<close>

datatype number = NaN | NegInf | Fin rat | PosInf

text \<open>For \<open>0 < x\<close>, \<open>ilog2 x\<close> is the integer \<open>k\<close> with \<open>2 powi k \<le> x < 2 powi (k + 1)\<close>.\<close>

definition ilog2 :: "rat \<Rightarrow> int" where
  "ilog2 x = (let (p, q) = quotient_of x; k = bitlen p - bitlen q
              in if 2 powi k \<le> x then k else k - 1)"

definition round_half_even :: "rat \<Rightarrow> int" where
  "round_half_even m =
     (let f = \<lfloor>m\<rfloor>; r = m - of_int f
      in if r < 1 / 2 then f
         else if 1 / 2 < r then f + 1
         else if even f then f else f + 1)"

text \<open>
  The spacing of binary64 values around \<open>x\<close>: 52 fraction bits below the leading bit,
  and the fixed spacing \<open>2 powi (- 1074)\<close> in the subnormal range.
\<close>

definition ulp :: "rat \<Rightarrow> rat" where
  "ulp x = 2 powi (max (ilog2 \<bar>x\<bar>) (- 1022) - 52)"

definition rnd :: "rat \<Rightarrow> number" where
  "rnd x =
     (if x = 0 then Fin 0
      else let u = ulp x; y = of_int (round_half_even (\<bar>x\<bar> / u)) * u
           in if 2 ^ 1024 \<le> y then (if 0 < x then PosInf else NegInf)
              else Fin (sgn x * y))"

text \<open>A decimal literal of the source denotes the binary64 value nearest to it.\<close>

definition lit :: "rat \<Rightarrow> number" where
  "lit r = rnd r"

fun num_neg :: "number \<Rightarrow> number" where
  "num_neg NaN = NaN"
| "num_neg NegInf = PosInf"
| "num_neg (Fin a) = Fin (- a)"
| "num_neg PosInf = NegInf"

fun num_add :: "number \<Rightarrow> number \<Rightarrow> number" where
  "num_add NaN b = NaN"
| "num_add a NaN = NaN"
| "num_add (Fin a) (Fin b) = rnd (a + b)"
| "num_add PosInf NegInf = NaN"
| "num_add NegInf PosInf = NaN"
| "num_add PosInf b = PosInf"
| "num_add a PosInf = PosInf"
| "num_add NegInf b = NegInf"
| "num_add a NegInf = NegInf"

definition num_sub :: "number \<Rightarrow> number \<Rightarrow> number" where
  "num_sub a b = num_add a (num_neg b)"

fun num_mul :: "number \<Rightarrow> number \<Rightarrow> number" where
  "num_mul NaN b = NaN"
| "num_mul a NaN = NaN"
| "num_mul (Fin a) (Fin b) = rnd (a * b)"
| "num_mul (Fin a) PosInf = (if a = 0 then NaN else if 0 < a then PosInf else NegInf)"
| "num_mul (Fin a) NegInf = (if a = 0 then NaN else if 0 < a then NegInf else PosInf)"
| "num_mul PosInf (Fin b) = (if b = 0 then NaN else if 0 < b then PosInf else NegInf)"
| "num_mul NegInf (Fin b) = (if b = 0 then NaN else if 0 < b then NegInf else PosInf)"
| "num_mul PosInf PosInf = PosInf"
| "num_mul PosInf NegInf = NegInf"
| "num_mul NegInf PosInf = NegInf"
| "num_mul NegInf NegInf = PosInf"

text \<open>The relational operators \<^verbatim>\<open><\<close> and \<^verbatim>\<open><=\<close>: false whenever an operand is NaN.\<close>

fun num_less :: "number \<Rightarrow> number \<Rightarrow> bool" where
  "num_less NaN b = False"
| "num_less a NaN = False"
| "num_less (Fin a) (Fin b) = (a < b)"
| "num_less a NegInf = False"
| "num_less NegInf b = True"
| "num_less PosInf b = False"
| "num_less a PosInf = True"

fun num_le :: "number \<Rightarrow> number \<Rightarrow> bool" where
  "num_le NaN b = False"
| "num_le a NaN = False"
| "num_le a b = (\<not> num_less b a)"

fun Math_max :: "number \<Rightarrow> number \<Rightarrow> number" where
  "Math_max NaN b = NaN"
| "Math_max a NaN = NaN"
| "Math_max a b = (if num_less a b then b else a)"

fun Math_min :: "number \<Rightarrow> number \<Rightarrow> number" where
  "Math_min NaN b = NaN"
| "Math_min a NaN = NaN"
| "Math_min a b = (if num_less b a then b else a)"

fun Math_abs :: "number \<Rightarrow> number" where
  "Math_abs NaN = NaN"
| "Math_abs NegInf = PosInf"
| "Math_abs (Fin a) = Fin \<bar>a\<bar>"
| "Math_abs PosInf = PosInf"

fun is_finite :: "number \<Rightarrow> bool" where
  "is_finite (Fin a) = True"
| "is_finite a = False"

section \<open>The state of the page\<close>

text \<open>
  The mutable variables that the listeners of \<^verbatim>\<open>script.js\<close> close over, together with
  the fields of the camera, the mesh and its material that they assign. Calls into the
  rendering library and the host are recorded: \<open>load_requests\<close> holds the first
  argument of every \<^verbatim>\<open>textureLoader.load\<close> call, \<open>console_errors\<close> the arguments
  of every \<^verbatim>\<open>console.error\<close> call, \<open>frames_rendered\<close> counts the calls of
  \<^verbatim>\<open>renderer.render\<close>, and \<open>uncaught\<close> holds the exceptions that leave a listener.
  The size of the render target, which \<^verbatim>\<open>resizeRenderer\<close> sets, and the default
  gestures that \<^verbatim>\<open>e.preventDefault()\<close> suppresses belong to the host; no listener
  reads them, and they are left out.
\<close>

datatype js_value = JUndefined | JString string | JFunction string | JObject string

datatype texture = Texture string

record point =
  point_x :: number
  point_y :: number

text \<open>
  The coordinates of a mouse event or of a touch point. The host's interface types
  them as finite doubles, so they are carried as rationals.
\<close>

record pointer =
  clientX :: rat
  clientY :: rat

record state =
  camera_position_z :: number
  currentZoom :: number
  earth_rotation_x :: number
  earth_rotation_y :: number
  material_color :: nat
  material_map :: "texture option"
  material_needsUpdate :: bool
  isDragging :: bool
  previousMousePosition :: point
  momentumX :: number
  momentumY :: number
  load_requests :: "js_value list"
  console_errors :: "(string \<times> string) list"
  uncaught :: "string list"
  frames_rendered :: nat

section \<open>Zoom controls\<close>

text \<open>
  \<^verbatim>\<open>currentZoom = Math.max(0.5, currentZoom - 0.3); camera.position.z = currentZoom;\<close>
\<close>

definition zoomInBtn_click :: "state \<Rightarrow> state" where
  "zoomInBtn_click s =
     (let s1 = s\<lparr>currentZoom := Math_max (lit (1 / 2)) (num_sub (currentZoom s) (lit (3 / 10)))\<rparr>
      in s1\<lparr>camera_position_z := currentZoom s1\<rparr>)"

text \<open>
  \<^verbatim>\<open>currentZoom = Math.min(3, currentZoom + 0.3); camera.position.z = currentZoom;\<close>
\<close>

definition zoomOutBtn_click :: "state \<Rightarrow> state" where
  "zoomOutBtn_click s =
     (let s1 = s\<lparr>currentZoom := Math_min (lit 3) (num_add (currentZoom s) (lit (3 / 10)))\<rparr>
      in s1\<lparr>camera_position_z := currentZoom s1\<rparr>)"

section \<open>Texture loading\<close>

text \<open>
  \<^verbatim>\<open>loadTexture(url)\<close> sets the material colour to \<^verbatim>\<open>0x333333\<close> and hands the
  URL and three callbacks to the texture loader. The loader later calls one of the
  callbacks; each is a state transition of its own.
\<close>

definition loadTexture :: "js_value \<Rightarrow> state \<Rightarrow> state" where
  "loadTexture url s =
     (let s1 = s\<lparr>material_color := 0x333333\<rparr>
      in s1\<lparr>load_requests := load_requests s1 @ [url]\<rparr>)"

definition loadTexture_onLoad :: "texture \<Rightarrow> state \<Rightarrow> state" where
  "loadTexture_onLoad tex s =
     (let s1 = s\<lparr>material_map := Some tex\<rparr>
      in s1\<lparr>material_needsUpdate := True\<rparr>)"

definition loadTexture_onProgress :: "state \<Rightarrow> state" where
  "loadTexture_onProgress s = s"

definition loadTexture_onError :: "string \<Rightarrow> state \<Rightarrow> state" where
  "loadTexture_onError err s =
     (let s1 = s\<lparr>console_errors := console_errors s @ [(''Error loading texture:'', err)]\<rparr>;
          s2 = s1\<lparr>material_color := 0x3366cc\<rparr>
      in s2\<lparr>material_needsUpdate := True\<rparr>)"

section \<open>Era textures\<close>

text \<open>
  \<^verbatim>\<open>eraTextures\<close> is an object literal: its own properties are the five eras, and its
  prototype is \<^verbatim>\<open>Object.prototype\<close>. A property read \<^verbatim>\<open>eraTextures[key]\<close> returns the
  own property of that name, else the property that \<^verbatim>\<open>Object.prototype\<close> has under
  that name, else \<^verbatim>\<open>undefined\<close>. \<open>Object_prototype\<close> lists the properties that the
  language standard gives \<^verbatim>\<open>Object.prototype\<close>: eleven functions and the accessor
  \<^verbatim>\<open>__proto__\<close>, whose value here is \<^verbatim>\<open>Object.prototype\<close> itself. The selector's value
  is always a string, and is used as the key as it is.
\<close>

definition eraTextures :: "(string \<times> js_value) list" where
  "eraTextures =
     [(''modern'', JString ''textures/earth_night.jpg''),
      (''ancient'', JString ''textures/earth old.jpg''),
      (''prehistoric'', JString ''dinoera.jpg''),
      (''dinosaurs'', JString ''textures/clouds.png''),
      (''formation'', JString ''textures/eartrh_bump.jpg'')]"

definition Object_prototype :: "(string \<times> js_value) list" where
  "Object_prototype =
     [(''constructor'', JFunction ''Object''),
      (''hasOwnProperty'', JFunction ''hasOwnProperty''),
      (''isPrototypeOf'', JFunction ''isPrototypeOf''),
      (''propertyIsEnumerable'', JFunction ''propertyIsEnumerable''),
      (''toLocaleString'', JFunction ''toLocaleString''),
      (''toString'', JFunction ''toString''),
      (''valueOf'', JFunction ''valueOf''),
      (''__defineGetter__'', JFunction ''__defineGetter__''),
      (''__defineSetter__'', JFunction ''__defineSetter__''),
      (''__lookupGetter__'', JFunction ''__lookupGetter__''),
      (''__lookupSetter__'', JFunction ''__lookupSetter__''),
      (''__proto__'', JObject ''Object.prototype'')]"

definition get_property :: "(string \<times> js_value) list \<Rightarrow> string \<Rightarrow> js_value" where
  "get_property own key =
     (case map_of own key of
        Some v \<Rightarrow> v
      | None \<Rightarrow> (case map_of Object_prototype key of Some v \<Rightarrow> v | None \<Rightarrow> JUndefined))"

text \<open>The truth value of a condition: \<^verbatim>\<open>undefined\<close> and the empty string are false.\<close>

fun ToBoolean :: "js_value \<Rightarrow> bool" where
  "ToBoolean JUndefined = False"
| "ToBoolean (JString str) = (str \<noteq> [])"
| "ToBoolean (JFunction f) = True"
| "ToBoolean (JObject ob) = True"

text \<open>
  \<^verbatim>\<open>if (eraTextures[selectedEra]) { loadTexture(eraTextures[selectedEra]); }\<close>
\<close>

definition eraSelector_change :: "string \<Rightarrow> state \<Rightarrow> state" where
  "eraSelector_change selectedEra s =
     (if ToBoolean (get_property eraTextures selectedEra)
      then loadTexture (get_property eraTextures selectedEra) s
      else s)"

section \<open>Drag and momentum\<close>

definition rotationSpeed :: number where
  "rotationSpeed = lit (9 / 1000)"

definition momentumDecay :: number where
  "momentumDecay = lit (1 / 100)"

definition maxMomentum :: number where
  "maxMomentum = lit (15 / 100)"

definition sensitivity :: number where
  "sensitivity = lit (9 / 1000)"

definition canvas_mousedown :: "pointer \<Rightarrow> state \<Rightarrow> state" where
  "canvas_mousedown e s =
     (let s1 = s\<lparr>isDragging := True\<rparr>
      in s1\<lparr>previousMousePosition := \<lparr>point_x = Fin (clientX e), point_y = Fin (clientY e)\<rparr>\<rparr>)"

definition canvas_mousemove :: "pointer \<Rightarrow> state \<Rightarrow> state" where
  "canvas_mousemove e s =
     (if isDragging s then
        let deltaX = num_sub (Fin (clientX e)) (point_x (previousMousePosition s));
            deltaY = num_sub (Fin (clientY e)) (point_y (previousMousePosition s));
            s1 = s\<lparr>momentumX :=
                   Math_min maxMomentum (Math_max (num_neg maxMomentum) (num_mul deltaX sensitivity))\<rparr>;
            s2 = s1\<lparr>momentumY :=
                   Math_min maxMomentum (Math_max (num_neg maxMomentum) (num_mul deltaY sensitivity))\<rparr>;
            s3 = s2\<lparr>earth_rotation_y := num_add (earth_rotation_y s2) (momentumX s2)\<rparr>;
            s4 = s3\<lparr>earth_rotation_x := num_add (earth_rotation_x s3) (momentumY s3)\<rparr>
        in s4\<lparr>previousMousePosition := \<lparr>point_x = Fin (clientX e), point_y = Fin (clientY e)\<rparr>\<rparr>
      else s)"

definition canvas_mouseup :: "state \<Rightarrow> state" where
  "canvas_mouseup s = s\<lparr>isDragging := False\<rparr>"

definition canvas_mouseleave :: "state \<Rightarrow> state" where
  "canvas_mouseleave s = s\<lparr>isDragging := False\<rparr>"

text \<open>
  The touch listeners read \<^verbatim>\<open>e.touches[0]\<close>. On an empty touch list that is
  \<^verbatim>\<open>undefined\<close>, and reading \<^verbatim>\<open>clientX\<close> of it throws a TypeError out of the
  listener; the assignments made before the throw stay.
\<close>

definition canvas_touchstart :: "pointer list \<Rightarrow> state \<Rightarrow> state" where
  "canvas_touchstart touches s =
     (let s1 = s\<lparr>isDragging := True\<rparr>
      in case touches of
           [] \<Rightarrow> s1\<lparr>uncaught := uncaught s1 @ [''TypeError'']\<rparr>
         | t # _ \<Rightarrow>
             s1\<lparr>previousMousePosition := \<lparr>point_x = Fin (clientX t), point_y = Fin (clientY t)\<rparr>\<rparr>)"

definition canvas_touchmove :: "pointer list \<Rightarrow> state \<Rightarrow> state" where
  "canvas_touchmove touches s =
     (if isDragging s then
        case touches of
          [] \<Rightarrow> s\<lparr>uncaught := uncaught s @ [''TypeError'']\<rparr>
        | t # _ \<Rightarrow>
            let deltaX = num_sub (Fin (clientX t)) (point_x (previousMousePosition s));
                deltaY = num_sub (Fin (clientY t)) (point_y (previousMousePosition s));
                s1 = s\<lparr>momentumX :=
                       Math_min maxMomentum (Math_max (num_neg maxMomentum) (num_mul deltaX sensitivity))\<rparr>;
                s2 = s1\<lparr>momentumY :=
                       Math_min maxMomentum (Math_max (num_neg maxMomentum) (num_mul deltaY sensitivity))\<rparr>;
                s3 = s2\<lparr>earth_rotation_y := num_add (earth_rotation_y s2) (momentumX s2)\<rparr>;
                s4 = s3\<lparr>earth_rotation_x := num_add (earth_rotation_x s3) (momentumY s3)\<rparr>
            in s4\<lparr>previousMousePosition := \<lparr>point_x = Fin (clientX t), point_y = Fin (clientY t)\<rparr>\<rparr>
      else s)"

definition canvas_touchend :: "state \<Rightarrow> state" where
  "canvas_touchend s = s\<lparr>isDragging := False\<rparr>"

section \<open>Animation loop\<close>

text \<open>
  One call of \<^verbatim>\<open>animate\<close>. The call schedules the next one with
  \<^verbatim>\<open>requestAnimationFrame\<close>; the host runs it as the next \<open>AnimationFrame\<close> event.
\<close>

definition animate :: "state \<Rightarrow> state" where
  "animate s =
     (let s5 =
        (if \<not> isDragging s then
           let s1 = s\<lparr>earth_rotation_y := num_add (earth_rotation_y s) (momentumX s)\<rparr>;
               s2 = s1\<lparr>earth_rotation_x := num_add (earth_rotation_x s1) (momentumY s1)\<rparr>;
               s3 = s2\<lparr>momentumX := num_mul (momentumX s2) momentumDecay\<rparr>;
               s4 = s3\<lparr>momentumY := num_mul (momentumY s3) momentumDecay\<rparr>
           in if num_less (Math_abs (momentumX s4)) (lit (1 / 1000))
                 \<and> num_less (Math_abs (momentumY s4)) (lit (1 / 1000))
              then s4\<lparr>earth_rotation_y := num_add (earth_rotation_y s4) rotationSpeed\<rparr>
              else s4
         else s)
      in s5\<lparr>frames_rendered := frames_rendered s5 + 1\<rparr>)"

section \<open>Start-up and the event loop\<close>

text \<open>
  The state once the script's top level has run without an exception: camera and zoom
  at 1.8, the mesh unrotated and white (\<^verbatim>\<open>0xffffff\<close>) with no map, no
  drag, no momentum; then the texture of the modern era is requested and \<^verbatim>\<open>animate\<close>
  is called once.
\<close>

definition constructed :: state where
  "constructed =
     \<lparr>camera_position_z = lit (18 / 10), currentZoom = lit (18 / 10),
      earth_rotation_x = Fin 0, earth_rotation_y = Fin 0,
      material_color = 0xffffff, material_map = None, material_needsUpdate = False,
      isDragging = False, previousMousePosition = \<lparr>point_x = Fin 0, point_y = Fin 0\<rparr>,
      momentumX = Fin 0, momentumY = Fin 0,
      load_requests = [], console_errors = [], uncaught = [], frames_rendered = 0\<rparr>"

definition startup :: state where
  "startup = animate (loadTexture (get_property eraTextures ''modern'') constructed)"

datatype event =
    Mousedown pointer
  | Mousemove pointer
  | Mouseup
  | Mouseleave
  | Touchstart "pointer list"
  | Touchmove "pointer list"
  | Touchend
  | AnimationFrame
  | ZoomInClick
  | ZoomOutClick
  | EraChange string
  | TextureLoaded texture
  | TextureProgress
  | TextureFailed string

fun dispatch :: "event \<Rightarrow> state \<Rightarrow> state" where
  "dispatch (Mousedown e) s = canvas_mousedown e s"
| "dispatch (Mousemove e) s = canvas_mousemove e s"
| "dispatch Mouseup s = canvas_mouseup s"
| "dispatch Mouseleave s = canvas_mouseleave s"
| "dispatch (Touchstart ts) s = canvas_touchstart ts s"
| "dispatch (Touchmove ts) s = canvas_touchmove ts s"
| "dispatch Touchend s = canvas_touchend s"
| "dispatch AnimationFrame s = animate s"
| "dispatch ZoomInClick s = zoomInBtn_click s"
| "dispatch ZoomOutClick s = zoomOutBtn_click s"
| "dispatch (EraChange selectedEra) s = eraSelector_change selectedEra s"
| "dispatch (TextureLoaded tex) s = loadTexture_onLoad tex s"
| "dispatch TextureProgress s = loadTexture_onProgress s"
| "dispatch (TextureFailed err) s = loadTexture_onError err s"

text \<open>The host dispatches events one at a time, in the order received.\<close>

fun run :: "event list \<Rightarrow> state \<Rightarrow> state" where
  "run [] s = s"
| "run (ev # evs) s = run evs (dispatch ev s)"

section \<open>Vocabulary of the properties\<close>

text \<open>
  The specification's \<open>clamp(v, lo, hi)\<close>, written from its words: \<open>lo\<close> below \<open>lo\<close>,
  \<open>hi\<close> above \<open>hi\<close>, \<open>v\<close> itself in between.
\<close>

definition clamp :: "number \<Rightarrow> number \<Rightarrow> number \<Rightarrow> number" where
  "clamp v lo hi = (if num_less v lo then lo else if num_less hi v then hi else v)"

text \<open>
  The specification's drag-move transition, written from its four steps: the delta to
  the last pointer position; both momenta clamped from delta times sensitivity
  (\<open>0.009\<close>) to \<open>[-0.15, 0.15]\<close>; the rotation advanced at once, \<open>rotationY\<close> by
  \<open>momentumX\<close> and \<open>rotationX\<close> by \<open>momentumY\<close>; the last pointer position replaced
  by the current one.
\<close>

definition drag_move_spec :: "rat \<Rightarrow> rat \<Rightarrow> state \<Rightarrow> state" where
  "drag_move_spec cx cy s =
     (let delta_x = num_sub (Fin cx) (point_x (previousMousePosition s));
          delta_y = num_sub (Fin cy) (point_y (previousMousePosition s));
          mx = clamp (num_mul delta_x (lit (9 / 1000))) (num_neg (lit (15 / 100))) (lit (15 / 100));
          my = clamp (num_mul delta_y (lit (9 / 1000))) (num_neg (lit (15 / 100))) (lit (15 / 100))
      in s\<lparr>momentumX := mx, momentumY := my,
           earth_rotation_y := num_add (earth_rotation_y s) mx,
           earth_rotation_x := num_add (earth_rotation_x s) my,
           previousMousePosition := \<lparr>point_x = Fin cx, point_y = Fin cy\<rparr>\<rparr>)"

text \<open>\<^verbatim>\<open>Math.abs(momentumX) <= maxMomentum && Math.abs(momentumY) <= maxMomentum\<close>\<close>

definition momentum_bounded :: "state \<Rightarrow> bool" where
  "momentum_bounded s \<longleftrightarrow>
     num_le (Math_abs (momentumX s)) maxMomentum \<and> num_le (Math_abs (momentumY s)) maxMomentum"

text \<open>
  The invariant behind the bound: the stored pointer position is finite, so the next
  delta is not NaN.
\<close>

definition momentum_inv :: "state \<Rightarrow> bool" where
  "momentum_inv s \<longleftrightarrow>
     is_finite (point_x (previousMousePosition s))
     \<and> is_finite (point_y (previousMousePosition s))
     \<and> momentum_bounded s"

text \<open>\<^verbatim>\<open>0.5 <= currentZoom && currentZoom <= 3\<close>\<close>

definition zoom_in_range :: "state \<Rightarrow> bool" where
  "zoom_in_range s \<longleftrightarrow> num_le (lit (1 / 2)) (currentZoom s) \<and> num_le (currentZoom s) (lit 3)"

text \<open>
  Whether the call of \<^verbatim>\<open>animate\<close> that starts in \<open>s\<close> takes the branch that adds
  \<^verbatim>\<open>rotationSpeed\<close>: no drag is active, and both momenta, as decayed by this very
  call, are below \<^verbatim>\<open>0.001\<close> in magnitude.
\<close>

definition auto_rotation_engages :: "state \<Rightarrow> bool" where
  "auto_rotation_engages s \<longleftrightarrow>
     \<not> isDragging s
     \<and> num_less (Math_abs (num_mul (momentumX s) momentumDecay)) (lit (1 / 1000))
     \<and> num_less (Math_abs (num_mul (momentumY s) momentumDecay)) (lit (1 / 1000))"

text \<open>
  A drag from \<open>(0, 0)\<close> to \<open>(100, 100)\<close> that is then released, right after start-up:
  both momenta are at \<^verbatim>\<open>maxMomentum\<close> and no drag is active.
\<close>

definition released :: state where
  "released =
     run [Mousedown \<lparr>clientX = 0, clientY = 0\<rparr>,
          Mousemove \<lparr>clientX = 100, clientY = 100\<rparr>,
          Mouseup] startup"

section \<open>Rounding\<close>

lemma round_half_even_error: "\<bar>of_int (round_half_even m) - m\<bar> \<le> 1 / 2"
proof -
  have "of_int \<lfloor>m\<rfloor> \<le> m" "m < of_int \<lfloor>m\<rfloor> + 1" by linarith+
  then show ?thesis
    unfolding round_half_even_def Let_def by (auto simp: abs_le_iff)
qed

lemma round_half_even_nonneg: "0 \<le> m \<Longrightarrow> 0 \<le> round_half_even m"
proof -
  assume "0 \<le> m"
  then have "0 \<le> \<lfloor>m\<rfloor>" by simp
  then show ?thesis unfolding round_half_even_def Let_def by auto
qed

lemma ilog2_le:
  assumes "0 < x"
  shows "2 powi ilog2 x \<le> x"
proof -
  obtain p q where pq: "quotient_of x = (p, q)" by (cases "quotient_of x")
  then have q: "0 < q" by (rule quotient_of_denom_pos)
  have x: "x = of_int p / of_int q" using pq by (rule quotient_of_div)
  with assms q have p: "0 < p" by (simp add: zero_less_divide_iff)
  let ?k = "bitlen p - bitlen q"
  show ?thesis
  proof (cases "(2::rat) powi ?k \<le> x")
    case True
    then show ?thesis by (simp add: ilog2_def pq)
  next
    case False
    have bp: "1 \<le> bitlen p" using p bitlen_eq_zero_iff [of p] bitlen_nonneg [of p] by linarith
    have bq: "0 \<le> bitlen q" by (rule bitlen_nonneg)
    have lo: "2 ^ nat (bitlen p - 1) \<le> p" using bitlen_bounds [OF p] by simp
    have hi: "q < 2 ^ nat (bitlen q)" using bitlen_bounds [OF q] by simp
    have "?k - 1 = (bitlen p - 1) - bitlen q" by simp
    then have "(2::rat) powi (?k - 1) = 2 powi (bitlen p - 1) / 2 powi (bitlen q)"
      by (simp only: power_int_diff [of "2::rat", simplified])
    also have "\<dots> = 2 ^ nat (bitlen p - 1) / 2 ^ nat (bitlen q)"
      using bp bq by (simp add: power_int_def)
    also have "\<dots> \<le> of_int p / of_int q"
    proof (rule frac_le)
      show "(0::rat) \<le> of_int p" using p by simp
      have "(of_int (2 ^ nat (bitlen p - 1)) :: rat) \<le> of_int p" using lo by (simp only: of_int_le_iff)
      then show "(2::rat) ^ nat (bitlen p - 1) \<le> of_int p" by simp
      show "(0::rat) < of_int q" using q by simp
      have "q \<le> 2 ^ nat (bitlen q)" using hi by simp
      then have "(of_int q :: rat) \<le> of_int (2 ^ nat (bitlen q))" by (simp only: of_int_le_iff)
      then show "(of_int q :: rat) \<le> 2 ^ nat (bitlen q)" by simp
    qed
    finally have "(2::rat) powi (?k - 1) \<le> x" using x by simp
    with False show ?thesis by (simp add: ilog2_def pq)
  qed
qed

lemma ilog2_upper:
  assumes "0 < x" and "x \<le> 2 powi k"
  shows "ilog2 x \<le> k"
proof -
  have le: "(2::rat) powi ilog2 x \<le> 2 powi k" using ilog2_le [OF assms(1)] assms(2) by simp
  show ?thesis
  proof (rule ccontr)
    assume "\<not> ilog2 x \<le> k"
    then have "k < ilog2 x" by simp
    then have "(2::rat) powi k < 2 powi ilog2 x" by (rule power_int_strict_increasing) simp
    with le show False by simp
  qed
qed

lemma ulp_pos: "0 < ulp x"
  by (simp add: ulp_def power_int_def)

lemma ulp_le:
  assumes "x \<noteq> 0" and "\<bar>x\<bar> \<le> 2 powi k" and "- 1022 \<le> k"
  shows "ulp x \<le> 2 powi (k - 52)"
proof -
  have "ilog2 \<bar>x\<bar> \<le> k" using assms(1,2) by (intro ilog2_upper) simp_all
  with assms(3) have "max (ilog2 \<bar>x\<bar>) (- 1022) - 52 \<le> k - 52" by simp
  then show ?thesis unfolding ulp_def by (rule power_int_increasing) simp
qed

lemma rnd_error:
  assumes "\<bar>x\<bar> \<le> 2 powi k" and "- 1022 \<le> k" and "k \<le> 1023"
  shows "\<exists>y. rnd x = Fin y \<and> \<bar>y - x\<bar> \<le> 2 powi (k - 53)"
proof (cases "x = 0")
  case True
  have "(0::rat) \<le> 2 powi (k - 53)" by (simp add: power_int_def)
  with True show ?thesis by (simp add: rnd_def)
next
  case False
  define u where "u = ulp x"
  define n where "n = round_half_even (\<bar>x\<bar> / u)"
  define y where "y = of_int n * u"
  have u: "0 < u" unfolding u_def by (rule ulp_pos)
  have ule: "u \<le> 2 powi (k - 52)" unfolding u_def using False assms(1,2) by (rule ulp_le)
  have half: "(2::rat) powi (k - 52) = 2 * 2 powi (k - 53)"
    using power_int_add [of "2::rat" 1 "k - 53"] by (simp add: algebra_simps)
  have "\<bar>of_int n - \<bar>x\<bar> / u\<bar> \<le> 1 / 2" unfolding n_def by (rule round_half_even_error)
  then have "\<bar>of_int n - \<bar>x\<bar> / u\<bar> * u \<le> 1 / 2 * u" using u by (simp add: mult_right_mono)
  moreover have "\<bar>of_int n - \<bar>x\<bar> / u\<bar> * u = \<bar>y - \<bar>x\<bar>\<bar>"
  proof -
    have "\<bar>of_int n - \<bar>x\<bar> / u\<bar> * u = \<bar>of_int n - \<bar>x\<bar> / u\<bar> * \<bar>u\<bar>" using u by simp
    also have "\<dots> = \<bar>(of_int n - \<bar>x\<bar> / u) * u\<bar>" by (simp only: abs_mult)
    also have "(of_int n - \<bar>x\<bar> / u) * u = y - \<bar>x\<bar>"
      using u unfolding y_def by (simp add: left_diff_distrib)
    finally show ?thesis .
  qed
  ultimately have "\<bar>y - \<bar>x\<bar>\<bar> \<le> u / 2" by simp
  with ule half have err: "\<bar>y - \<bar>x\<bar>\<bar> \<le> 2 powi (k - 53)" by simp
  define P :: rat where "P = 2 powi 1023"
  have "(2::rat) powi k \<le> P" unfolding P_def using assms(3) by (intro power_int_increasing) simp_all
  moreover have "(2::rat) powi (k - 53) \<le> 2 powi 970" using assms(3) by (intro power_int_increasing) simp_all
  moreover have "(2::rat) powi 970 < P" unfolding P_def by (rule power_int_strict_increasing) simp_all
  moreover have "y \<le> \<bar>x\<bar> + 2 powi (k - 53)" using err by linarith
  ultimately have "y < P + P" using assms(1) by linarith
  also have "P + P = 2 ^ 1024" unfolding P_def by simp
  finally have "y < 2 ^ 1024" .
  then have r: "rnd x = Fin (sgn x * y)"
    using False unfolding rnd_def Let_def y_def n_def u_def by simp
  have "sgn x * y - x = sgn x * (y - \<bar>x\<bar>)"
    by (simp add: right_diff_distrib sgn_mult_abs)
  then have "\<bar>sgn x * y - x\<bar> = \<bar>sgn x\<bar> * \<bar>y - \<bar>x\<bar>\<bar>" by (simp only: abs_mult)
  also have "\<dots> = \<bar>y - \<bar>x\<bar>\<bar>" using False by (simp add: abs_sgn_eq)
  finally show ?thesis using r err by simp
qed

lemma ilog2_less:
  assumes "0 < x"
  shows "x < 2 powi (ilog2 x + 1)"
proof -
  obtain p q where pq: "quotient_of x = (p, q)" by (cases "quotient_of x")
  then have q: "0 < q" by (rule quotient_of_denom_pos)
  have x: "x = of_int p / of_int q" using pq by (rule quotient_of_div)
  with assms q have p: "0 < p" by (simp add: zero_less_divide_iff)
  let ?k = "bitlen p - bitlen q"
  show ?thesis
  proof (cases "(2::rat) powi ?k \<le> x")
    case False
    then show ?thesis by (simp add: ilog2_def pq)
  next
    case True
    have bp: "0 \<le> bitlen p" by (rule bitlen_nonneg)
    have bq: "1 \<le> bitlen q" using q bitlen_eq_zero_iff [of q] bitlen_nonneg [of q] by linarith
    have hi: "p < 2 ^ nat (bitlen p)" using bitlen_bounds [OF p] by simp
    have lo: "2 ^ nat (bitlen q - 1) \<le> q" using bitlen_bounds [OF q] by simp
    have "(of_int p :: rat) < of_int (2 ^ nat (bitlen p))" using hi by (simp only: of_int_less_iff)
    then have hi': "(of_int p :: rat) < 2 ^ nat (bitlen p)" by simp
    have "(of_int (2 ^ nat (bitlen q - 1)) :: rat) \<le> of_int q" using lo by (simp only: of_int_le_iff)
    then have lo': "(2::rat) ^ nat (bitlen q - 1) \<le> of_int q" by simp
    have "of_int p / of_int q < (2::rat) ^ nat (bitlen p) / 2 ^ nat (bitlen q - 1)"
    proof (rule frac_less)
      show "(0::rat) \<le> of_int p" using p by simp
      show "(of_int p :: rat) < 2 ^ nat (bitlen p)" by (rule hi')
      show "(0::rat) < 2 ^ nat (bitlen q - 1)" by simp
      show "(2::rat) ^ nat (bitlen q - 1) \<le> of_int q" by (rule lo')
    qed
    also have "\<dots> = 2 powi (bitlen p) / 2 powi (bitlen q - 1)"
      using bp bq by (simp add: power_int_def)
    also have "\<dots> = 2 powi (bitlen p - (bitlen q - 1))"
      by (simp only: power_int_diff [of "2::rat", simplified])
    also have "bitlen p - (bitlen q - 1) = ?k + 1" by simp
    finally have "x < 2 powi (?k + 1)" using x by simp
    with True show ?thesis by (simp add: ilog2_def pq)
  qed
qed

lemma ilog2_eq:
  assumes "2 powi k \<le> x" and "x < 2 powi (k + 1)"
  shows "ilog2 x = k"
proof -
  have "(0::rat) < 2 powi k" by (simp add: power_int_def)
  with assms(1) have pos: "0 < x" by linarith
  have "ilog2 x \<le> k"
  proof (rule ccontr)
    assume "\<not> ilog2 x \<le> k"
    then have "k + 1 \<le> ilog2 x" by simp
    then have "(2::rat) powi (k + 1) \<le> 2 powi ilog2 x" by (rule power_int_increasing) simp
    with ilog2_le [OF pos] assms(2) show False by simp
  qed
  moreover have "k \<le> ilog2 x"
  proof (rule ccontr)
    assume "\<not> k \<le> ilog2 x"
    then have "ilog2 x + 1 \<le> k" by simp
    then have "(2::rat) powi (ilog2 x + 1) \<le> 2 powi k" by (rule power_int_increasing) simp
    with ilog2_less [OF pos] assms(1) show False by simp
  qed
  ultimately show ?thesis by simp
qed

lemma rnd_eval:
  assumes "2 powi k \<le> x" and "x < 2 powi (k + 1)" and "- 1022 \<le> k" and "k \<le> 1022"
  shows "rnd x = Fin (of_int (round_half_even (x / 2 powi (k - 52))) * 2 powi (k - 52))"
proof -
  have "(0::rat) < 2 powi k" by (simp add: power_int_def)
  with assms(1) have pos: "0 < x" by linarith
  have u: "ulp x = 2 powi (k - 52)"
    using pos assms(3) ilog2_eq [OF assms(1,2)] by (simp add: ulp_def)
  have "\<bar>x\<bar> \<le> 2 powi (k + 1)" using pos assms(2) by simp
  moreover have "- 1022 \<le> k + 1" "k + 1 \<le> 1023" using assms(3,4) by simp_all
  ultimately obtain y where y: "rnd x = Fin y" using rnd_error [of x "k + 1"] by blast
  then show ?thesis
    using pos u unfolding rnd_def Let_def by (simp split: if_splits)
qed

lemma floor_rat_numeral: "\<lfloor>numeral a / numeral b :: rat\<rfloor> = numeral a div numeral b"
  by (metis floor_divide_of_int_eq of_int_numeral)

lemmas rnd_simps = round_half_even_def Let_def floor_rat_numeral

section \<open>Evaluated arithmetic\<close>

text \<open>
  The literals of the script and the sums and products that the concrete runs below
  go through, each rounded once. The arguments are in lowest terms, the form in which
  the simplifier leaves a sum or product of fractions.
\<close>

lemma rnd_0: "rnd 0 = Fin 0"
  by (simp add: rnd_def)

text \<open>\<^verbatim>\<open>0.5\<close>\<close>

lemma rnd_half: "rnd (1 / 2) = Fin (1 / 2)"
  by (simp add: rnd_eval [where k = "-1"] rnd_simps)

text \<open>\<^verbatim>\<open>3\<close>\<close>

lemma rnd_3: "rnd 3 = Fin 3"
  by (simp add: rnd_eval [where k = "1"] rnd_simps)

text \<open>\<^verbatim>\<open>0.3\<close>\<close>

lemma rnd_03: "rnd (3 / 10) = Fin (5404319552844595 / 18014398509481984)"
  by (simp add: rnd_eval [where k = "-2"] rnd_simps)

text \<open>\<^verbatim>\<open>1.8\<close>\<close>

lemma rnd_18: "rnd (9 / 5) = Fin (8106479329266893 / 4503599627370496)"
  by (simp add: rnd_eval [where k = "0"] rnd_simps)

text \<open>\<^verbatim>\<open>0.009\<close>\<close>

lemma rnd_0009: "rnd (9 / 1000) = Fin (5188146770730811 / 576460752303423488)"
  by (simp add: rnd_eval [where k = "-7"] rnd_simps)

text \<open>\<^verbatim>\<open>0.01\<close>\<close>

lemma rnd_001: "rnd (1 / 100) = Fin (5764607523034235 / 576460752303423488)"
  by (simp add: rnd_eval [where k = "-7"] rnd_simps)

text \<open>\<^verbatim>\<open>0.15\<close>\<close>

lemma rnd_015: "rnd (3 / 20) = Fin (5404319552844595 / 36028797018963968)"
  by (simp add: rnd_eval [where k = "-3"] rnd_simps)

text \<open>\<^verbatim>\<open>0.001\<close>\<close>

lemma rnd_0001: "rnd (1 / 1000) = Fin (1152921504606847 / 1152921504606846976)"
  by (simp add: rnd_eval [where k = "-10"] rnd_simps)

text \<open>Zooming out from 1.8, step 1: \<^verbatim>\<open>1.8 + 0.3\<close>\<close>

lemma rnd_zoom_out_1: "rnd (37830236869912167 / 18014398509481984) = Fin (4728779608739021 / 2251799813685248)"
  by (simp add: rnd_eval [where k = "1"] rnd_simps)

text \<open>Zooming out from 1.8, step 2: \<^verbatim>\<open>2.1 + 0.3\<close>\<close>

lemma rnd_zoom_out_2: "rnd (43234556422756763 / 18014398509481984) = Fin (5404319552844595 / 2251799813685248)"
  by (simp add: rnd_eval [where k = "1"] rnd_simps)

text \<open>Zooming out from 1.8, step 3: \<^verbatim>\<open>2.4 + 0.3\<close>\<close>

lemma rnd_zoom_out_3: "rnd (48638875975601355 / 18014398509481984) = Fin (6079859496950169 / 2251799813685248)"
  by (simp add: rnd_eval [where k = "1"] rnd_simps)

text \<open>Zooming out from 1.8, step 4: \<^verbatim>\<open>2.6999999999999997 + 0.3\<close>\<close>

lemma rnd_zoom_out_4: "rnd (54043195528445947 / 18014398509481984) = Fin (6755399441055743 / 2251799813685248)"
  by (simp add: rnd_eval [where k = "1"] rnd_simps)

text \<open>Zooming out from 1.8, step 5: \<^verbatim>\<open>2.9999999999999996 + 0.3\<close>\<close>

lemma rnd_zoom_out_5: "rnd (59447515081290539 / 18014398509481984) = Fin (7430939385161317 / 2251799813685248)"
  by (simp add: rnd_eval [where k = "1"] rnd_simps)

text \<open>\<^verbatim>\<open>3 + 0.3\<close>\<close>

lemma rnd_zoom_out_top: "rnd (59447515081290547 / 18014398509481984) = Fin (3715469692580659 / 1125899906842624)"
  by (simp add: rnd_eval [where k = "1"] rnd_simps)

text \<open>\<^verbatim>\<open>0.5 - 0.3\<close>\<close>

lemma rnd_zoom_in_bottom: "rnd (3602879701896397 / 18014398509481984) = Fin (3602879701896397 / 18014398509481984)"
  by (simp add: rnd_eval [where k = "-3"] rnd_simps)

text \<open>Decay from 0.15, frame 1: \<^verbatim>\<open>0.15 * 0.01\<close>\<close>

lemma rnd_decay_1: "rnd (31153781151208965266779819709825 / 20769187434139310514121985316880384) = Fin (3458764513820541 / 2305843009213693952)"
  by (simp add: rnd_eval [where k = "-10"] rnd_simps)

text \<open>Decay from 0.15, frame 2: \<^verbatim>\<open>0.0015 * 0.01\<close>\<close>

lemma rnd_decay_2: "rnd (19938419936773738923660589221135 / 1329227995784915872903807060280344576) = Fin (8854437155380585 / 590295810358705651712)"
  by (simp add: rnd_eval [where k = "-17"] rnd_simps)

text \<open>Decay from 0.15, frame 3: \<^verbatim>\<open>1.5e-05 * 0.01\<close>\<close>

lemma rnd_decay_3: "rnd (51042355038140771875155409327475 / 340282366920938463463374607431768211456) = Fin (5666839779443575 / 37778931862957161709568)"
  by (simp add: rnd_eval [where k = "-23"] rnd_simps)

text \<open>A pointer delta of 100.\<close>

lemma rnd_100: "rnd 100 = Fin 100"
  by (simp add: rnd_eval [where k = "6"] rnd_simps)

text \<open>\<^verbatim>\<open>100 * 0.009\<close>\<close>

lemma rnd_drag_100: "rnd (129703669268270275 / 144115188075855872) = Fin (2026619832316723 / 2251799813685248)"
  by (simp add: rnd_eval [where k = "-1"] rnd_simps)

lemmas rnd_literals =
  lit_def rnd_0 rnd_half rnd_3 rnd_03 rnd_18 rnd_0009 rnd_001 rnd_015 rnd_0001

section \<open>Zoom\<close>

text \<open>
  C6. For every value of \<open>currentZoom\<close>, a click on the zoom-in button sets it to
  \<^verbatim>\<open>Math.max(0.5, currentZoom - 0.3)\<close> and a click on the zoom-out button sets it to
  \<^verbatim>\<open>Math.min(3, currentZoom + 0.3)\<close>; each copies the new value to
  \<^verbatim>\<open>camera.position.z\<close> and changes nothing else, so no exception leaves the listener.
  At the bounds the value saturates: zooming in at 0.5 leaves 0.5, zooming out at 3
  leaves 3.
\<close>

theorem zoom_click_effect:
  "zoomInBtn_click s =
     s\<lparr>currentZoom := Math_max (lit (1 / 2)) (num_sub (currentZoom s) (lit (3 / 10))),
       camera_position_z := Math_max (lit (1 / 2)) (num_sub (currentZoom s) (lit (3 / 10)))\<rparr>
   \<and> zoomOutBtn_click s =
     s\<lparr>currentZoom := Math_min (lit 3) (num_add (currentZoom s) (lit (3 / 10))),
       camera_position_z := Math_min (lit 3) (num_add (currentZoom s) (lit (3 / 10)))\<rparr>
   \<and> camera_position_z (zoomInBtn_click s) = currentZoom (zoomInBtn_click s)
   \<and> camera_position_z (zoomOutBtn_click s) = currentZoom (zoomOutBtn_click s)
   \<and> uncaught (zoomInBtn_click s) = uncaught s
   \<and> uncaught (zoomOutBtn_click s) = uncaught s
   \<and> currentZoom (zoomInBtn_click (s\<lparr>currentZoom := lit (1 / 2)\<rparr>)) = lit (1 / 2)
   \<and> currentZoom (zoomOutBtn_click (s\<lparr>currentZoom := lit 3\<rparr>)) = lit 3"
  by (simp add: zoomInBtn_click_def zoomOutBtn_click_def num_sub_def rnd_literals
        rnd_zoom_in_bottom rnd_zoom_out_top)

lemma zoom_in_range_iff:
  "zoom_in_range s \<longleftrightarrow> (\<exists>d. currentZoom s = Fin d \<and> 1 / 2 \<le> d \<and> d \<le> 3)"
  by (cases "currentZoom s") (auto simp: zoom_in_range_def rnd_literals)

lemma zoomIn_in_range:
  assumes "zoom_in_range s"
  shows "zoom_in_range (zoomInBtn_click s)"
proof -
  from assms obtain d where d: "currentZoom s = Fin d" "1 / 2 \<le> d" "d \<le> 3"
    by (auto simp: zoom_in_range_iff)
  let ?x = "d - 5404319552844595 / 18014398509481984"
  have "\<bar>?x\<bar> \<le> 2 powi 2" using d(2,3) by simp
  then obtain y where y: "rnd ?x = Fin y" "\<bar>y - ?x\<bar> \<le> 2 powi (2 - 53)"
    using rnd_error [of ?x 2] by auto
  from y(2) have "\<bar>y - ?x\<bar> \<le> 1 / 2251799813685248" by simp
  with d(3) have "y \<le> 3" by linarith
  then show ?thesis
    using d(1) y(1) by (simp add: zoom_in_range_def zoomInBtn_click_def rnd_literals num_sub_def)
qed

lemma zoomOut_in_range:
  assumes "zoom_in_range s"
  shows "zoom_in_range (zoomOutBtn_click s)"
proof -
  from assms obtain d where d: "currentZoom s = Fin d" "1 / 2 \<le> d" "d \<le> 3"
    by (auto simp: zoom_in_range_iff)
  let ?x = "d + 5404319552844595 / 18014398509481984"
  have "\<bar>?x\<bar> \<le> 2 powi 2" using d(2,3) by simp
  then obtain y where y: "rnd ?x = Fin y" "\<bar>y - ?x\<bar> \<le> 2 powi (2 - 53)"
    using rnd_error [of ?x 2] by auto
  from y(2) have "\<bar>y - ?x\<bar> \<le> 1 / 2251799813685248" by simp
  with d(2) have "1 / 2 \<le> y" by linarith
  then show ?thesis
    using d(1) y(1) by (simp add: zoom_in_range_def zoomOutBtn_click_def rnd_literals)
qed

lemma dispatch_zoom_in_range: "zoom_in_range s \<Longrightarrow> zoom_in_range (dispatch ev s)"
proof (cases ev)
  case ZoomInClick
  assume "zoom_in_range s"
  with ZoomInClick show ?thesis by (simp add: zoomIn_in_range)
next
  case ZoomOutClick
  assume "zoom_in_range s"
  with ZoomOutClick show ?thesis by (simp add: zoomOut_in_range)
qed (auto simp: zoom_in_range_def canvas_mousedown_def canvas_mousemove_def canvas_mouseup_def
      canvas_mouseleave_def canvas_touchstart_def canvas_touchmove_def canvas_touchend_def
      animate_def eraSelector_change_def loadTexture_def loadTexture_onLoad_def
      loadTexture_onProgress_def loadTexture_onError_def Let_def split: list.splits)

lemma run_zoom_in_range: "zoom_in_range s \<Longrightarrow> zoom_in_range (run evs s)"
  by (induction evs arbitrary: s) (simp_all add: dispatch_zoom_in_range)

lemma zoomOut_fixed: "currentZoom s = Fin 3 \<Longrightarrow> currentZoom (zoomOutBtn_click s) = Fin 3"
  by (simp add: zoomOutBtn_click_def rnd_literals rnd_zoom_out_top)

lemma zoomOut_fixed_funpow:
  "currentZoom s = Fin 3 \<Longrightarrow> currentZoom ((zoomOutBtn_click ^^ n) s) = Fin 3"
  by (induction n) (simp_all add: zoomOut_fixed)

lemma zoomOut_five:
  "currentZoom ((zoomOutBtn_click ^^ 5) (s\<lparr>currentZoom := lit (18 / 10)\<rparr>)) = Fin 3"
  by (simp add: eval_nat_numeral zoomOutBtn_click_def rnd_literals
        rnd_zoom_out_1 rnd_zoom_out_2 rnd_zoom_out_3 rnd_zoom_out_4 rnd_zoom_out_5)

text \<open>
  C7. From a state whose \<open>currentZoom\<close> lies in \<open>[0.5, 3]\<close>, every finite sequence of
  events, in particular every sequence of zoom-in and zoom-out clicks, leaves
  \<open>currentZoom\<close> in \<open>[0.5, 3]\<close>. Twenty zoom-out clicks from 1.8 end at exactly 3, and
  so does every longer run of zoom-out clicks.
\<close>

theorem zoom_stays_in_range:
  "(zoom_in_range s \<longrightarrow> zoom_in_range (run evs s))
   \<and> currentZoom ((zoomOutBtn_click ^^ 20) (s\<lparr>currentZoom := lit (18 / 10)\<rparr>)) = lit 3
   \<and> currentZoom ((zoomOutBtn_click ^^ (20 + n)) (s\<lparr>currentZoom := lit (18 / 10)\<rparr>)) = lit 3"
proof -
  let ?s = "s\<lparr>currentZoom := lit (18 / 10)\<rparr>"
  have five: "currentZoom ((zoomOutBtn_click ^^ 5) ?s) = Fin 3" by (rule zoomOut_five)
  have more: "currentZoom ((zoomOutBtn_click ^^ (m + 5)) ?s) = Fin 3" for m
    using zoomOut_fixed_funpow [OF five, of m] by (simp only: funpow_add o_apply)
  have "currentZoom ((zoomOutBtn_click ^^ (15 + 5)) ?s) = Fin 3" by (rule more)
  moreover have "currentZoom ((zoomOutBtn_click ^^ ((15 + n) + 5)) ?s) = Fin 3" by (rule more)
  moreover have "(15::nat) + 5 = 20" "(15 + n) + 5 = 20 + n" by simp_all
  ultimately show ?thesis by (simp add: run_zoom_in_range rnd_literals)
qed

theorem zoom_stays_in_range_witness:
  "zoom_in_range constructed
   \<and> zoom_in_range (run [ZoomOutClick, ZoomInClick, ZoomInClick, ZoomOutClick] constructed)"
proof -
  have "zoom_in_range constructed"
    by (simp add: zoom_in_range_def constructed_def rnd_literals)
  with zoom_stays_in_range [of constructed "[ZoomOutClick, ZoomInClick, ZoomInClick, ZoomOutClick]"]
  show ?thesis by blast
qed

section \<open>Momentum\<close>

lemma rnd_not_NaN: "rnd x \<noteq> NaN"
  by (simp add: rnd_def Let_def)

lemma bounded_iff:
  "num_le (Math_abs m) maxMomentum \<longleftrightarrow>
     (\<exists>r. m = Fin r \<and> \<bar>r\<bar> \<le> 5404319552844595 / 36028797018963968)"
  by (cases m) (auto simp: maxMomentum_def rnd_literals)

lemma clamp_bounded:
  "v \<noteq> NaN \<Longrightarrow>
     num_le (Math_abs (Math_min maxMomentum (Math_max (num_neg maxMomentum) v))) maxMomentum"
  by (cases v) (auto simp: maxMomentum_def rnd_literals)

lemma delta_not_NaN:
  assumes "is_finite p"
  shows "num_mul (num_sub (Fin c) p) sensitivity \<noteq> NaN"
proof -
  from assms obtain a where p: "p = Fin a" by (cases p) auto
  show ?thesis
    using rnd_not_NaN [of "c - a"] rnd_not_NaN
    by (cases "rnd (c - a)") (auto simp: p num_sub_def sensitivity_def rnd_literals)
qed

lemma decay_bounded:
  assumes "num_le (Math_abs m) maxMomentum"
  shows "num_le (Math_abs (num_mul m momentumDecay)) maxMomentum"
proof -
  from assms obtain r where r: "m = Fin r" "\<bar>r\<bar> \<le> 5404319552844595 / 36028797018963968"
    by (auto simp: bounded_iff)
  let ?c = "5764607523034235 / 576460752303423488 :: rat"
  have ax: "\<bar>r * ?c\<bar> = \<bar>r\<bar> * ?c" by (simp add: abs_mult)
  with r(2) have "\<bar>r * ?c\<bar> \<le> 2 powi (- 9)" by simp
  then obtain y where y: "rnd (r * ?c) = Fin y" "\<bar>y - r * ?c\<bar> \<le> 2 powi (- 9 - 53)"
    using rnd_error [of "r * ?c" "- 9"] by auto
  from y(2) have "\<bar>y - r * ?c\<bar> \<le> 1 / 4611686018427387904" by simp
  then have "\<bar>y\<bar> \<le> \<bar>r * ?c\<bar> + 1 / 4611686018427387904" by linarith
  with r(2) ax have "\<bar>y\<bar> \<le> 5404319552844595 / 36028797018963968" by simp
  then show ?thesis using r(1) y(1) by (simp add: maxMomentum_def momentumDecay_def rnd_literals)
qed

lemma startup_fields:
  "momentumX startup = Fin 0" "momentumY startup = Fin 0"
  "previousMousePosition startup = \<lparr>point_x = Fin 0, point_y = Fin 0\<rparr>"
  "isDragging startup = False"
  by (simp_all add: startup_def animate_def loadTexture_def constructed_def Let_def
        momentumDecay_def rnd_literals)

lemma inv_startup: "momentum_inv startup"
  by (simp add: momentum_inv_def momentum_bounded_def startup_fields maxMomentum_def rnd_literals)

lemma inv_mousemove: "momentum_inv s \<Longrightarrow> momentum_inv (canvas_mousemove e s)"
  by (simp add: momentum_inv_def momentum_bounded_def canvas_mousemove_def Let_def
        clamp_bounded delta_not_NaN)

lemma inv_touchmove: "momentum_inv s \<Longrightarrow> momentum_inv (canvas_touchmove ts s)"
  by (cases ts) (simp_all add: momentum_inv_def momentum_bounded_def canvas_touchmove_def Let_def
        clamp_bounded delta_not_NaN)

lemma inv_animate: "momentum_inv s \<Longrightarrow> momentum_inv (animate s)"
  by (simp add: momentum_inv_def momentum_bounded_def animate_def Let_def decay_bounded)

lemma inv_dispatch: "momentum_inv s \<Longrightarrow> momentum_inv (dispatch ev s)"
proof (cases ev)
  case (Mousemove e)
  assume "momentum_inv s"
  with Mousemove show ?thesis by (simp add: inv_mousemove)
next
  case (Touchmove ts)
  assume "momentum_inv s"
  with Touchmove show ?thesis by (simp add: inv_touchmove)
next
  case AnimationFrame
  assume "momentum_inv s"
  with AnimationFrame show ?thesis by (simp add: inv_animate)
qed (auto simp: momentum_inv_def momentum_bounded_def canvas_mousedown_def canvas_mouseup_def
      canvas_mouseleave_def canvas_touchstart_def canvas_touchend_def
      zoomInBtn_click_def zoomOutBtn_click_def eraSelector_change_def loadTexture_def
      loadTexture_onLoad_def loadTexture_onProgress_def loadTexture_onError_def Let_def
      split: list.splits)

lemma inv_run: "momentum_inv s \<Longrightarrow> momentum_inv (run evs s)"
  by (induction evs arbitrary: s) (simp_all add: inv_dispatch)

text \<open>
  C1. After every finite sequence of events from start-up, hence right after every
  drag-move of mouse or touch and at every later animation frame or other event, both
  \<open>momentumX\<close> and \<open>momentumY\<close> satisfy \<^verbatim>\<open>Math.abs(momentum) <= 0.15\<close>: a
  drag-move clamps them, and a frame without drag only multiplies them by the decay
  factor. The events range over all pointer coordinates, touch lists (the empty one
  included) and orders of arrival.
\<close>

theorem momentum_bounded_always:
  "num_le (Math_abs (momentumX (run evs startup))) (lit (15 / 100))
   \<and> num_le (Math_abs (momentumY (run evs startup))) (lit (15 / 100))"
  using inv_run [OF inv_startup, of evs]
  by (simp add: momentum_inv_def momentum_bounded_def maxMomentum_def)

section \<open>Drag\<close>

lemma clamp_min_max:
  "lo \<le> hi \<Longrightarrow> Math_min (Fin hi) (Math_max (Fin lo) v) = clamp v (Fin lo) (Fin hi)"
  by (cases v) (auto simp: clamp_def)

lemma mousemove_spec:
  "isDragging s \<Longrightarrow> canvas_mousemove e s = drag_move_spec (clientX e) (clientY e) s"
  by (simp add: canvas_mousemove_def drag_move_spec_def Let_def maxMomentum_def sensitivity_def
        rnd_literals clamp_min_max)

lemma touchmove_spec:
  "isDragging s \<Longrightarrow> canvas_touchmove (t # ts) s = drag_move_spec (clientX t) (clientY t) s"
  by (simp add: canvas_touchmove_def drag_move_spec_def Let_def maxMomentum_def sensitivity_def
        rnd_literals clamp_min_max)

lemma drag_100_momentum:
  "num_sub (Fin cx) (point_x (previousMousePosition s)) = Fin 100 \<Longrightarrow>
     momentumX (drag_move_spec cx cy s) = lit (15 / 100)"
  by (simp add: drag_move_spec_def Let_def clamp_def rnd_literals rnd_drag_100)

lemma drag_0_momentum:
  "num_sub (Fin cy) (point_y (previousMousePosition s)) = Fin 0 \<Longrightarrow>
     momentumY (drag_move_spec cx cy s) = Fin 0"
  by (simp add: drag_move_spec_def Let_def clamp_def rnd_literals)

text \<open>
  C4. While \<open>isDragging\<close> holds, a drag-move of the mouse, and of the first touch point,
  is the specification's transition \<open>drag_move_spec\<close>: both momenta are the clamp of
  delta times \<open>0.009\<close> to \<open>[-0.15, 0.15]\<close>, the rotation is advanced by them in the same
  listener, and the last pointer position becomes the current one. For a delta of
  \<open>(100, 0)\<close> the result is \<open>momentumX = 0.15\<close> and \<open>momentumY = 0\<close>.
\<close>

theorem drag_move_refines:
  assumes "isDragging s"
  shows "canvas_mousemove e s = drag_move_spec (clientX e) (clientY e) s
    \<and> canvas_touchmove (t # ts) s = drag_move_spec (clientX t) (clientY t) s
    \<and> (num_sub (Fin (clientX e)) (point_x (previousMousePosition s)) = Fin 100
         \<and> num_sub (Fin (clientY e)) (point_y (previousMousePosition s)) = Fin 0
       \<longrightarrow> momentumX (canvas_mousemove e s) = lit (15 / 100)
           \<and> momentumY (canvas_mousemove e s) = Fin 0)
    \<and> (num_sub (Fin (clientX t)) (point_x (previousMousePosition s)) = Fin 100
         \<and> num_sub (Fin (clientY t)) (point_y (previousMousePosition s)) = Fin 0
       \<longrightarrow> momentumX (canvas_touchmove (t # ts) s) = lit (15 / 100)
           \<and> momentumY (canvas_touchmove (t # ts) s) = Fin 0)"
  using assms by (simp add: mousemove_spec touchmove_spec drag_100_momentum drag_0_momentum)

theorem drag_move_refines_witness:
  "isDragging (canvas_mousedown \<lparr>clientX = 0, clientY = 0\<rparr> startup)
   \<and> momentumX (canvas_mousemove \<lparr>clientX = 100, clientY = 0\<rparr>
        (canvas_mousedown \<lparr>clientX = 0, clientY = 0\<rparr> startup)) = lit (15 / 100)
   \<and> momentumY (canvas_mousemove \<lparr>clientX = 100, clientY = 0\<rparr>
        (canvas_mousedown \<lparr>clientX = 0, clientY = 0\<rparr> startup)) = Fin 0"
proof -
  let ?s = "canvas_mousedown \<lparr>clientX = 0, clientY = 0\<rparr> startup"
  let ?e = "\<lparr>clientX = 100, clientY = 0\<rparr>"
  have d: "isDragging ?s" by (simp add: canvas_mousedown_def)
  have x: "num_sub (Fin (clientX ?e)) (point_x (previousMousePosition ?s)) = Fin 100"
    by (simp add: canvas_mousedown_def num_sub_def rnd_100)
  have y: "num_sub (Fin (clientY ?e)) (point_y (previousMousePosition ?s)) = Fin 0"
    by (simp add: canvas_mousedown_def num_sub_def rnd_0)
  from drag_move_refines [OF d, of ?e] x y d show ?thesis by blast
qed

text \<open>
  C5. Each of the three drag-end listeners (mouse-up, mouse-leave, touch-end) sets
  \<open>isDragging\<close> to false and changes no other field: the momenta keep the values that
  the last drag-move left, and the next frame advances the rotation by them.
\<close>

theorem drag_end_effect:
  "canvas_mouseup s = s\<lparr>isDragging := False\<rparr>
   \<and> canvas_mouseleave s = s\<lparr>isDragging := False\<rparr>
   \<and> canvas_touchend s = s\<lparr>isDragging := False\<rparr>
   \<and> momentumX (canvas_mouseup (canvas_mousemove e s)) = momentumX (canvas_mousemove e s)
   \<and> momentumY (canvas_mouseup (canvas_mousemove e s)) = momentumY (canvas_mousemove e s)
   \<and> momentumX (canvas_mouseleave (canvas_mousemove e s)) = momentumX (canvas_mousemove e s)
   \<and> momentumY (canvas_mouseleave (canvas_mousemove e s)) = momentumY (canvas_mousemove e s)
   \<and> momentumX (canvas_touchend (canvas_touchmove ts s)) = momentumX (canvas_touchmove ts s)
   \<and> momentumY (canvas_touchend (canvas_touchmove ts s)) = momentumY (canvas_touchmove ts s)
   \<and> earth_rotation_x (animate (canvas_mouseup s)) = num_add (earth_rotation_x s) (momentumY s)
   \<and> earth_rotation_x (animate (canvas_mouseleave s)) = num_add (earth_rotation_x s) (momentumY s)
   \<and> earth_rotation_x (animate (canvas_touchend s)) = num_add (earth_rotation_x s) (momentumY s)"
  by (simp add: canvas_mouseup_def canvas_mouseleave_def canvas_touchend_def animate_def Let_def)

section \<open>Animation frame\<close>

text \<open>
  C2. With no drag active, one call of \<^verbatim>\<open>animate\<close> adds \<open>momentumX\<close> to the rotation
  about \<open>y\<close> and \<open>momentumY\<close> to the rotation about \<open>x\<close>, then multiplies both momenta by
  \<open>0.01\<close>, then adds \<open>0.009\<close> to the rotation about \<open>y\<close> if both decayed momenta are below
  \<open>0.001\<close> in magnitude. Apart from the count of rendered frames, no other field
  changes.
\<close>

theorem animate_idle_step:
  assumes "\<not> isDragging s"
  shows "animate s =
     s\<lparr>earth_rotation_y :=
         (if num_less (Math_abs (num_mul (momentumX s) (lit (1 / 100)))) (lit (1 / 1000))
             \<and> num_less (Math_abs (num_mul (momentumY s) (lit (1 / 100)))) (lit (1 / 1000))
          then num_add (num_add (earth_rotation_y s) (momentumX s)) (lit (9 / 1000))
          else num_add (earth_rotation_y s) (momentumX s)),
       earth_rotation_x := num_add (earth_rotation_x s) (momentumY s),
       momentumX := num_mul (momentumX s) (lit (1 / 100)),
       momentumY := num_mul (momentumY s) (lit (1 / 100)),
       frames_rendered := frames_rendered s + 1\<rparr>"
  using assms by (simp add: animate_def Let_def momentumDecay_def rotationSpeed_def)

theorem animate_idle_step_witness:
  "\<not> isDragging startup
   \<and> momentumX (animate startup) = Fin 0
   \<and> earth_rotation_x (animate startup) = Fin 0
   \<and> frames_rendered (animate startup) = 2"
proof -
  have d: "\<not> isDragging startup" by (simp add: startup_fields)
  have f: "earth_rotation_x startup = Fin 0" "frames_rendered startup = 1"
    by (simp_all add: startup_def animate_def loadTexture_def constructed_def Let_def
          momentumDecay_def rnd_literals)
  show ?thesis
    using d by (simp add: animate_idle_step [OF d] startup_fields f rnd_literals)
qed

lemma rnd_minus: "rnd (- x) = num_neg (rnd x)"
  by (simp add: rnd_def ulp_def Let_def sgn_if)

lemma Math_abs_neg: "Math_abs (num_neg v) = Math_abs v"
  by (cases v) simp_all

lemma rnd_nonneg:
  assumes "0 \<le> x"
  shows "Math_abs (rnd x) = rnd x"
proof (cases "x = 0")
  case True
  then show ?thesis by (simp add: rnd_0)
next
  case False
  with assms have pos: "0 < x" by simp
  define n where "n = round_half_even (\<bar>x\<bar> / ulp x)"
  have "0 \<le> \<bar>x\<bar> / ulp x" using ulp_pos [of x] by simp
  then have "0 \<le> n" unfolding n_def by (rule round_half_even_nonneg)
  then have y: "0 \<le> rat_of_int n * ulp x" using ulp_pos [of x] by simp
  have "rnd x = (if 2 ^ 1024 \<le> rat_of_int n * ulp x then PosInf else Fin (rat_of_int n * ulp x))"
    using pos unfolding rnd_def Let_def n_def by simp
  with y show ?thesis by simp
qed

lemma abs_num_mul:
  assumes "0 \<le> c"
  shows "Math_abs (num_mul (Fin r) (Fin c)) = num_mul (Fin \<bar>r\<bar>) (Fin c)"
proof (cases "0 \<le> r")
  case True
  with assms have "0 \<le> r * c" by simp
  then show ?thesis using True by (simp add: rnd_nonneg)
next
  case False
  then have "0 \<le> - r" by simp
  then have "0 \<le> - r * c" using assms by (rule mult_nonneg_nonneg)
  then have "Math_abs (rnd (- r * c)) = rnd (- r * c)" by (rule rnd_nonneg)
  moreover have "rnd (r * c) = num_neg (rnd (- r * c))" using rnd_minus [of "- r * c"] by simp
  ultimately show ?thesis using False by (simp add: Math_abs_neg)
qed

lemma abs_decay:
  "Math_abs (num_mul m momentumDecay) = num_mul (Math_abs m) momentumDecay"
proof (cases m)
  case (Fin r)
  then show ?thesis by (simp add: momentumDecay_def rnd_literals abs_num_mul del: num_mul.simps)
qed (simp_all add: momentumDecay_def rnd_literals)

lemma animate_idle:
  assumes "\<not> isDragging s"
  shows "\<not> isDragging (animate s)"
    and "momentumX (animate s) = num_mul (momentumX s) momentumDecay"
    and "momentumY (animate s) = num_mul (momentumY s) momentumDecay"
  using assms by (simp_all add: animate_def Let_def)

lemma animate_rotation_y:
  "earth_rotation_y (animate s) =
     (if isDragging s then earth_rotation_y s
      else if auto_rotation_engages s
           then num_add (num_add (earth_rotation_y s) (momentumX s)) rotationSpeed
           else num_add (earth_rotation_y s) (momentumX s))"
  by (simp add: animate_def auto_rotation_engages_def Let_def)

lemma auto_rotation_engages_abs:
  "auto_rotation_engages s \<longleftrightarrow>
     \<not> isDragging s
     \<and> num_less (num_mul (Math_abs (momentumX s)) momentumDecay) (lit (1 / 1000))
     \<and> num_less (num_mul (Math_abs (momentumY s)) momentumDecay) (lit (1 / 1000))"
  by (simp add: auto_rotation_engages_def abs_decay)

lemma funpow_idle: "\<not> isDragging s \<Longrightarrow> \<not> isDragging ((animate ^^ n) s)"
  by (induction n) (simp_all add: animate_idle)

lemma funpow_abs_momentum:
  assumes "\<not> isDragging s"
  shows "Math_abs (momentumX ((animate ^^ Suc n) s)) =
           num_mul (Math_abs (momentumX ((animate ^^ n) s))) momentumDecay"
    and "Math_abs (momentumY ((animate ^^ Suc n) s)) =
           num_mul (Math_abs (momentumY ((animate ^^ n) s))) momentumDecay"
  using funpow_idle [OF assms, of n] by (simp_all add: animate_idle abs_decay)

lemma small_decay:
  assumes "a = Fin r" and "0 \<le> r" and "r \<le> 1 / 512"
  shows "\<exists>r'. num_mul a momentumDecay = Fin r' \<and> 0 \<le> r' \<and> r' \<le> 1 / 512
           \<and> num_less (Fin r') (lit (1 / 1000))"
proof -
  let ?c = "5764607523034235 / 576460752303423488 :: rat"
  have "\<bar>r * ?c\<bar> = r * ?c" using assms(2) by simp
  with assms(3) have "\<bar>r * ?c\<bar> \<le> 2 powi (- 15)" by simp
  then obtain y where y: "rnd (r * ?c) = Fin y" "\<bar>y - r * ?c\<bar> \<le> 2 powi (- 15 - 53)"
    using rnd_error [of "r * ?c" "- 15"] by auto
  have "Math_abs (rnd (r * ?c)) = rnd (r * ?c)" using assms(2) by (intro rnd_nonneg) simp
  with y(1) have y0: "0 \<le> y" by simp
  from y(2) have "\<bar>y - r * ?c\<bar> \<le> 1 / 295147905179352825856" by simp
  with assms(3) have "y \<le> 1 / 16384" by linarith
  with y0 y(1) assms(1) show ?thesis by (simp add: momentumDecay_def rnd_literals)
qed

lemma funpow_small:
  assumes "\<not> isDragging s" and "Math_abs (momentumX s) = lit (15 / 100)"
  shows "\<exists>r. Math_abs (momentumX ((animate ^^ Suc n) s)) = Fin r \<and> 0 \<le> r \<and> r \<le> 1 / 512
           \<and> (0 < n \<longrightarrow> num_less (Fin r) (lit (1 / 1000)))"
proof (induction n)
  case 0
  have "Math_abs (momentumX (animate s)) = num_mul (Math_abs (momentumX s)) momentumDecay"
    by (simp add: animate_idle [OF assms(1)] abs_decay)
  also have "\<dots> = num_mul (lit (15 / 100)) momentumDecay" using assms(2) by simp
  also have "\<dots> = Fin (3458764513820541 / 2305843009213693952)"
    by (simp add: momentumDecay_def rnd_literals rnd_decay_1)
  finally have e: "Math_abs (momentumX (animate s)) = Fin (3458764513820541 / 2305843009213693952)" .
  show ?case by (rule exI [of _ "3458764513820541 / 2305843009213693952"]) (simp add: e)
next
  case (Suc n)
  then obtain r where r: "Math_abs (momentumX ((animate ^^ Suc n) s)) = Fin r" "0 \<le> r" "r \<le> 1 / 512"
    by blast
  from small_decay [OF r] funpow_abs_momentum(1) [OF assms(1), of "Suc n"]
  show ?case by auto
qed

lemma funpow_small_Y:
  assumes "\<not> isDragging s" and "Math_abs (momentumY s) = lit (15 / 100)"
  shows "\<exists>r. Math_abs (momentumY ((animate ^^ Suc n) s)) = Fin r \<and> 0 \<le> r \<and> r \<le> 1 / 512
           \<and> (0 < n \<longrightarrow> num_less (Fin r) (lit (1 / 1000)))"
proof (induction n)
  case 0
  have "Math_abs (momentumY (animate s)) = num_mul (Math_abs (momentumY s)) momentumDecay"
    by (simp add: animate_idle [OF assms(1)] abs_decay)
  also have "\<dots> = num_mul (lit (15 / 100)) momentumDecay" using assms(2) by simp
  also have "\<dots> = Fin (3458764513820541 / 2305843009213693952)"
    by (simp add: momentumDecay_def rnd_literals rnd_decay_1)
  finally have e: "Math_abs (momentumY (animate s)) = Fin (3458764513820541 / 2305843009213693952)" .
  show ?case by (rule exI [of _ "3458764513820541 / 2305843009213693952"]) (simp add: e)
next
  case (Suc n)
  then obtain r where r: "Math_abs (momentumY ((animate ^^ Suc n) s)) = Fin r" "0 \<le> r" "r \<le> 1 / 512"
    by blast
  from small_decay [OF r] funpow_abs_momentum(2) [OF assms(1), of "Suc n"]
  show ?case by auto
qed

lemma engages_later:
  assumes "\<not> isDragging s"
    and "Math_abs (momentumX s) = lit (15 / 100)" and "Math_abs (momentumY s) = lit (15 / 100)"
  shows "auto_rotation_engages ((animate ^^ Suc n) s)"
proof -
  obtain rx where rx: "Math_abs (momentumX ((animate ^^ Suc n) s)) = Fin rx" "0 \<le> rx" "rx \<le> 1 / 512"
    using funpow_small [OF assms(1,2), of n] by blast
  obtain ry where ry: "Math_abs (momentumY ((animate ^^ Suc n) s)) = Fin ry" "0 \<le> ry" "ry \<le> 1 / 512"
    using funpow_small_Y [OF assms(1,3), of n] by blast
  from small_decay [OF rx] small_decay [OF ry] funpow_idle [OF assms(1), of "Suc n"] rx(1) ry(1)
  show ?thesis unfolding auto_rotation_engages_abs by auto
qed

lemma three_frames:
  assumes "\<not> isDragging s"
  shows "Math_abs (momentumX s) = lit (15 / 100) \<Longrightarrow>
           Math_abs (momentumX ((animate ^^ 3) s)) = Fin (5666839779443575 / 37778931862957161709568)"
    and "Math_abs (momentumY s) = lit (15 / 100) \<Longrightarrow>
           Math_abs (momentumY ((animate ^^ 3) s)) = Fin (5666839779443575 / 37778931862957161709568)"
  using funpow_abs_momentum [OF assms, of 0] funpow_abs_momentum [OF assms, of 1]
    funpow_abs_momentum [OF assms, of 2]
  by (simp_all add: eval_nat_numeral momentumDecay_def rnd_literals
        rnd_decay_1 rnd_decay_2 rnd_decay_3)

lemma first_frame:
  assumes "Math_abs (momentumX s) = lit (15 / 100)"
  shows "\<not> auto_rotation_engages s"
  using assms unfolding auto_rotation_engages_abs
  by (simp add: momentumDecay_def rnd_literals rnd_decay_1)

lemma released_fields:
  "\<not> isDragging released"
  "momentumX released = lit (15 / 100)" "momentumY released = lit (15 / 100)"
  by (simp_all add: released_def canvas_mousedown_def canvas_mousemove_def canvas_mouseup_def
        startup_fields Let_def num_sub_def sensitivity_def maxMomentum_def rnd_literals
        rnd_100 rnd_drag_100)

text \<open>
  C3, as amended. From a state with no drag active and both momenta of magnitude
  \<open>0.15\<close>: the first frame does not auto-rotate, since the momentum it decays to,
  \<open>0.0015\<close>, is not below \<open>0.001\<close>; the second frame and every later frame does; after
  three frames the magnitude of each momentum is the double next above \<open>1.5e-7\<close>
  (within \<open>1e-22\<close> of it), below the threshold \<open>0.001\<close>.
\<close>

theorem auto_rotation_after_release:
  assumes "\<not> isDragging s"
    and "Math_abs (momentumX s) = lit (15 / 100)"
    and "Math_abs (momentumY s) = lit (15 / 100)"
  shows "\<not> auto_rotation_engages s
    \<and> earth_rotation_y (animate s) = num_add (earth_rotation_y s) (momentumX s)
    \<and> auto_rotation_engages ((animate ^^ Suc n) s)
    \<and> earth_rotation_y (animate (animate s)) =
        num_add (num_add (earth_rotation_y (animate s)) (momentumX (animate s))) (lit (9 / 1000))
    \<and> Math_abs (momentumX ((animate ^^ 3) s)) = Fin (5666839779443575 / 37778931862957161709568)
    \<and> Math_abs (momentumY ((animate ^^ 3) s)) = Fin (5666839779443575 / 37778931862957161709568)
    \<and> num_less (Fin (5666839779443575 / 37778931862957161709568)) (lit (1 / 1000))
    \<and> \<bar>5666839779443575 / 37778931862957161709568 - 15 / 10 ^ 8 :: rat\<bar> \<le> 1 / 10 ^ 22"
proof -
  have one: "\<not> auto_rotation_engages s" using assms(2) by (rule first_frame)
  have two: "auto_rotation_engages ((animate ^^ Suc 0) s)" using assms by (rule engages_later)
  have "earth_rotation_y (animate s) = num_add (earth_rotation_y s) (momentumX s)"
    using one assms(1) by (simp add: animate_rotation_y)
  moreover have "earth_rotation_y (animate (animate s)) =
      num_add (num_add (earth_rotation_y (animate s)) (momentumX (animate s))) (lit (9 / 1000))"
    using two animate_idle(1) [OF assms(1)] by (simp add: animate_rotation_y [of "animate s"] rotationSpeed_def)
  moreover have "auto_rotation_engages ((animate ^^ Suc n) s)" using assms by (rule engages_later)
  moreover have "num_less (Fin (5666839779443575 / 37778931862957161709568)) (lit (1 / 1000))"
    by (simp add: rnd_literals)
  moreover have "\<bar>5666839779443575 / 37778931862957161709568 - 15 / 10 ^ 8 :: rat\<bar> \<le> 1 / 10 ^ 22"
    by simp
  ultimately show ?thesis
    using one three_frames [OF assms(1)] assms(2,3) by blast
qed

theorem auto_rotation_after_release_witness:
  "\<not> isDragging released
   \<and> Math_abs (momentumX released) = lit (15 / 100)
   \<and> Math_abs (momentumY released) = lit (15 / 100)
   \<and> \<not> auto_rotation_engages released
   \<and> auto_rotation_engages ((animate ^^ Suc 0) released)
   \<and> auto_rotation_engages ((animate ^^ Suc 2) released)"
proof -
  have h: "\<not> isDragging released" "Math_abs (momentumX released) = lit (15 / 100)"
    "Math_abs (momentumY released) = lit (15 / 100)"
    by (simp_all add: released_fields rnd_literals)
  from auto_rotation_after_release [OF h, of 0] auto_rotation_after_release [OF h, of 2] h
  show ?thesis by blast
qed

text \<open>
  The claim C3 as stated has auto-rotation begin with the fourth frame and not
  earlier. After the drag \<open>released\<close>, it is already the second frame that adds
  \<^verbatim>\<open>rotationSpeed\<close>.
\<close>

theorem auto_rotation_second_frame:
  "\<not> isDragging released
   \<and> momentumX released = lit (15 / 100)
   \<and> momentumY released = lit (15 / 100)
   \<and> auto_rotation_engages (animate released)
   \<and> earth_rotation_y (animate (animate released)) =
       num_add (num_add (earth_rotation_y (animate released)) (momentumX (animate released)))
         rotationSpeed"
proof -
  have h: "Math_abs (momentumX released) = lit (15 / 100)"
    "Math_abs (momentumY released) = lit (15 / 100)"
    by (simp_all add: released_fields rnd_literals)
  have "auto_rotation_engages ((animate ^^ Suc 0) released)"
    using released_fields(1) h by (rule engages_later)
  then have e: "auto_rotation_engages (animate released)" by simp
  have "\<not> isDragging (animate released)"
    using released_fields(1) by (rule animate_idle(1))
  with e show ?thesis
    by (simp add: released_fields animate_rotation_y [of "animate released"])
qed

section \<open>Textures\<close>

text \<open>
  C9. Every call of \<^verbatim>\<open>loadTexture\<close> sets the material colour to the placeholder
  \<^verbatim>\<open>0x333333\<close> before any callback of the loader runs. The error callback logs the
  error, sets the colour to \<^verbatim>\<open>0x3366cc\<close>, leaves the map as it was and sets
  \<open>needsUpdate\<close>.
\<close>

theorem texture_failure_path:
  "loadTexture url s = s\<lparr>material_color := 0x333333, load_requests := load_requests s @ [url]\<rparr>
   \<and> loadTexture_onError err s =
       s\<lparr>console_errors := console_errors s @ [(''Error loading texture:'', err)],
         material_color := 0x3366cc, material_needsUpdate := True\<rparr>
   \<and> material_color (loadTexture url s) = 0x333333
   \<and> material_color (loadTexture_onError err (loadTexture url s)) = 0x3366cc
   \<and> material_map (loadTexture_onError err (loadTexture url s)) = material_map s
   \<and> material_needsUpdate (loadTexture_onError err (loadTexture url s)) = True
   \<and> console_errors (loadTexture_onError err (loadTexture url s)) =
       console_errors s @ [(''Error loading texture:'', err)]"
  by (simp add: loadTexture_def loadTexture_onError_def Let_def)

text \<open>
  C10. The success callback stores the texture as the material's map and sets
  \<open>needsUpdate\<close>, and leaves the colour alone: after a load that succeeds, with or
  without progress callbacks before it, the colour is still the placeholder
  \<^verbatim>\<open>0x333333\<close>.
\<close>

theorem texture_success_keeps_color:
  "loadTexture_onLoad tex s = s\<lparr>material_map := Some tex, material_needsUpdate := True\<rparr>
   \<and> material_color (loadTexture_onLoad tex s) = material_color s
   \<and> material_color (loadTexture_onLoad tex (loadTexture url s)) = 0x333333
   \<and> material_map (loadTexture_onLoad tex (loadTexture url s)) = Some tex
   \<and> material_needsUpdate (loadTexture_onLoad tex (loadTexture url s)) = True
   \<and> material_color (loadTexture_onLoad tex (loadTexture_onProgress (loadTexture url s))) = 0x333333"
  by (simp add: loadTexture_def loadTexture_onLoad_def loadTexture_onProgress_def Let_def)

section \<open>Era selection\<close>

lemma era_change_known:
  "eraSelector_change ''modern'' s = loadTexture (JString ''textures/earth_night.jpg'') s"
  "eraSelector_change ''ancient'' s = loadTexture (JString ''textures/earth old.jpg'') s"
  "eraSelector_change ''prehistoric'' s = loadTexture (JString ''dinoera.jpg'') s"
  "eraSelector_change ''dinosaurs'' s = loadTexture (JString ''textures/clouds.png'') s"
  "eraSelector_change ''formation'' s = loadTexture (JString ''textures/eartrh_bump.jpg'') s"
  by (simp_all add: eraSelector_change_def get_property_def eraTextures_def)

lemma era_change_absent:
  "map_of eraTextures key = None \<Longrightarrow> map_of Object_prototype key = None \<Longrightarrow>
     eraSelector_change key s = s"
  by (simp add: eraSelector_change_def get_property_def)

lemma era_change_unknown: "eraSelector_change ''unknown'' s = s"
  by (simp add: eraSelector_change_def get_property_def eraTextures_def Object_prototype_def)

text \<open>
  Exactly the five era names and the property names of \<^verbatim>\<open>Object.prototype\<close> make the
  listener call \<^verbatim>\<open>loadTexture\<close>; every other key leaves the state as it is.
\<close>

lemma era_values_true: "(k, v) \<in> set eraTextures \<Longrightarrow> ToBoolean v"
  by (auto simp: eraTextures_def)

lemma prototype_values_true: "(k, v) \<in> set Object_prototype \<Longrightarrow> ToBoolean v"
  by (auto simp: Object_prototype_def)

lemma era_change_loads_iff:
  "eraSelector_change key s \<noteq> s \<longleftrightarrow>
     key \<in> fst ` set eraTextures \<or> key \<in> fst ` set Object_prototype"
proof -
  have neq: "loadTexture url s \<noteq> s" for url
  proof
    assume "loadTexture url s = s"
    then have "load_requests (loadTexture url s) = load_requests s" by simp
    then show False by (simp add: loadTexture_def Let_def)
  qed
  have "ToBoolean (get_property eraTextures key) \<longleftrightarrow>
      key \<in> fst ` set eraTextures \<or> key \<in> fst ` set Object_prototype"
  proof (cases "map_of eraTextures key")
    case None
    note own = this
    show ?thesis
    proof (cases "map_of Object_prototype key")
      case None
      have "\<not> ToBoolean (get_property eraTextures key)"
        using own None by (simp add: get_property_def)
      moreover have "key \<notin> fst ` set eraTextures" using own by (simp add: map_of_eq_None_iff)
      moreover have "key \<notin> fst ` set Object_prototype" using None by (simp add: map_of_eq_None_iff)
      ultimately show ?thesis by simp
    next
      case (Some v)
      then have "(key, v) \<in> set Object_prototype" by (rule map_of_SomeD)
      with Some own show ?thesis
        by (auto simp: get_property_def prototype_values_true intro: rev_image_eqI)
    qed
  next
    case (Some v)
    then have "(key, v) \<in> set eraTextures" by (rule map_of_SomeD)
    with Some show ?thesis
      by (auto simp: get_property_def era_values_true intro: rev_image_eqI)
  qed
  then show ?thesis using neq by (simp add: eraSelector_change_def)
qed

text \<open>
  C8, at the key \<open>constructor\<close>. The key is none of the five eras, yet the property
  read finds the function that \<^verbatim>\<open>Object.prototype\<close> holds under that name; a function
  is true as a condition, so \<^verbatim>\<open>loadTexture\<close> is called with it: the colour changes to
  the placeholder and a load is requested.
\<close>

theorem era_change_inherited_key:
  "get_property eraTextures ''constructor'' = JFunction ''Object''
   \<and> eraSelector_change ''constructor'' s = loadTexture (JFunction ''Object'') s
   \<and> load_requests (eraSelector_change ''constructor'' s) = load_requests s @ [JFunction ''Object'']
   \<and> material_color (eraSelector_change ''constructor'' s) = 0x333333
   \<and> eraSelector_change ''constructor'' s \<noteq> s"
proof -
  have g: "get_property eraTextures ''constructor'' = JFunction ''Object''"
    by (simp add: get_property_def eraTextures_def Object_prototype_def)
  have e: "eraSelector_change ''constructor'' s = loadTexture (JFunction ''Object'') s"
    by (simp add: eraSelector_change_def g)
  have l: "load_requests (loadTexture (JFunction ''Object'') s) = load_requests s @ [JFunction ''Object'']"
    by (simp add: loadTexture_def Let_def)
  have "load_requests (loadTexture (JFunction ''Object'') s) \<noteq> load_requests s"
    unfolding l by simp
  then have "loadTexture (JFunction ''Object'') s \<noteq> s" by auto
  with g e l show ?thesis by (simp add: loadTexture_def Let_def)
qed

end
